theory Spec2Isabelle
  imports Main "HOL-Library.AList"
begin

section \<open>Python values\<close>

text \<open>
  The request and response bodies are decoded JSON: trees of \<open>None\<close>, booleans,
  integers, strings, lists and dictionaries with string keys.  A dictionary is an
  association list in insertion order without duplicate keys, as a Python \<open>dict\<close> is;
  \<open>AList.update\<close> overwrites an existing key in place and appends a new one, which is
  what \<open>d[k] = v\<close> does.  Strings are lists of characters, a character being a code
  point below 256.  Floating-point numbers are left out.
\<close>

datatype json =
    JNone
  | JBool bool
  | JInt int
  | JStr string
  | JList "json list"
  | JDict "(string \<times> json) list"

type_synonym dict = "(string \<times> json) list"

datatype error =
    AttributeError
  | TypeError
  | KeyError string
  | ValueError "string list"
  | BackendError

text \<open>Truth value testing: \<open>None\<close>, \<open>False\<close>, zero and empty containers are false.\<close>

fun truthy :: "json \<Rightarrow> bool" where
  "truthy JNone = False"
| "truthy (JBool b) = b"
| "truthy (JInt i) = (i \<noteq> 0)"
| "truthy (JStr s) = (s \<noteq> [])"
| "truthy (JList xs) = (xs \<noteq> [])"
| "truthy (JDict d) = (d \<noteq> [])"

text \<open>\<open>a or b\<close>.\<close>

definition py_or :: "json \<Rightarrow> json \<Rightarrow> json" where
  "py_or a b = (if truthy a then a else b)"

text \<open>\<open>k in d\<close>, \<open>d.get(k, default)\<close>, \<open>d.get(k)\<close> and \<open>d[k] = v\<close> on a dictionary.\<close>

definition has_key :: "dict \<Rightarrow> string \<Rightarrow> bool" where
  "has_key d k = (map_of d k \<noteq> None)"

definition get_or :: "dict \<Rightarrow> string \<Rightarrow> json \<Rightarrow> json" where
  "get_or d k dflt = (case map_of d k of None \<Rightarrow> dflt | Some v \<Rightarrow> v)"

definition get :: "dict \<Rightarrow> string \<Rightarrow> json" where
  "get d k = get_or d k JNone"

definition dset :: "dict \<Rightarrow> string \<Rightarrow> json \<Rightarrow> dict" where
  "dset d k v = AList.update k v d"

text \<open>
  \<open>x.get(k, default)\<close> on a value that need not be a dictionary: no other JSON value
  has a \<open>get\<close> attribute.  The attribute is looked up before the arguments are
  evaluated.
\<close>

definition is_dict :: "json \<Rightarrow> bool" where
  "is_dict v = (case v of JDict d \<Rightarrow> True | _ \<Rightarrow> False)"

definition attr_get :: "json \<Rightarrow> error + dict" where
  "attr_get v = (case v of JDict d \<Rightarrow> Inr d | _ \<Rightarrow> Inl AttributeError)"

text \<open>\<open>x[k]\<close> with a string key: defined on dictionaries only.\<close>

definition subscript :: "json \<Rightarrow> string \<Rightarrow> error + json" where
  "subscript v k =
     (case v of
        JDict d \<Rightarrow> (case map_of d k of None \<Rightarrow> Inl (KeyError k) | Some x \<Rightarrow> Inr x)
      | _ \<Rightarrow> Inl TypeError)"

text \<open>
  Keys of the adapter's own dictionaries.  Lists and dictionaries are unhashable;
  \<open>True\<close> and \<open>False\<close> hash and compare as \<open>1\<close> and \<open>0\<close>.
\<close>

definition hkey :: "json \<Rightarrow> error + json" where
  "hkey v =
     (case v of
        JList xs \<Rightarrow> Inl TypeError
      | JDict d \<Rightarrow> Inl TypeError
      | JBool b \<Rightarrow> Inr (JInt (if b then 1 else 0))
      | _ \<Rightarrow> Inr v)"

subsection \<open>\<open>str\<close> of a value, as an f-string formats it\<close>

definition digit_char :: "nat \<Rightarrow> char" where
  "digit_char n = char_of (48 + n)"

fun show_nat :: "nat \<Rightarrow> string" where
  "show_nat n = (if n < 10 then [digit_char n] else show_nat (n div 10) @ [digit_char (n mod 10)])"

definition show_int :: "int \<Rightarrow> string" where
  "show_int i = (if i < 0 then CHR ''-'' # show_nat (nat (- i)) else show_nat (nat i))"

definition hex_char :: "nat \<Rightarrow> char" where
  "hex_char n = (if n < 10 then char_of (48 + n) else char_of (87 + n))"

text \<open>
  \<open>repr\<close> of a string escapes the backslash, the quote in use and every character that
  is not printable: the codes below 32, those from 127 to 160, and 173 (the soft hyphen).
\<close>

definition escape_char :: "char \<Rightarrow> char \<Rightarrow> string" where
  "escape_char q c =
     (if c = CHR 0x5C then [CHR 0x5C, CHR 0x5C]
      else if c = q then [CHR 0x5C, q]
      else if c = CHR 0x0A then [CHR 0x5C, CHR ''n'']
      else if c = CHR 0x0D then [CHR 0x5C, CHR ''r'']
      else if c = CHR 0x09 then [CHR 0x5C, CHR ''t'']
      else if (of_char c :: nat) < 32 \<or> (127 \<le> (of_char c :: nat) \<and> (of_char c :: nat) \<le> 160)
          \<or> (of_char c :: nat) = 173
        then [CHR 0x5C, CHR ''x'', hex_char (of_char c div 16), hex_char (of_char c mod 16)]
      else [c])"

definition repr_str :: "string \<Rightarrow> string" where
  "repr_str s =
     (let q = (if CHR 0x27 \<in> set s \<and> CHR 0x22 \<notin> set s then CHR 0x22 else CHR 0x27)
      in q # concat (map (escape_char q) s) @ [q])"

fun join :: "string \<Rightarrow> string list \<Rightarrow> string" where
  "join sep [] = []"
| "join sep [x] = x"
| "join sep (x # y # ys) = x @ sep @ join sep (y # ys)"

fun repr :: "json \<Rightarrow> string" where
  "repr JNone = ''None''"
| "repr (JBool b) = (if b then ''True'' else ''False'')"
| "repr (JInt i) = show_int i"
| "repr (JStr s) = repr_str s"
| "repr (JList xs) = ''['' @ join '', '' (map repr xs) @ '']''"
| "repr (JDict d) =
     ''{'' @ join '', '' (map (\<lambda>p. repr_str (fst p) @ '': '' @ repr (snd p)) d) @ ''}''"

definition py_str :: "json \<Rightarrow> string" where
  "py_str v = (case v of JStr s \<Rightarrow> s | _ \<Rightarrow> repr v)"

section \<open>The adapter's state and its environment\<close>

record valves =
  insert_tags :: bool
  use_model_name_instead_of_id_for_generation :: bool
  debug :: bool

text \<open>
  Calls into the Langfuse SDK, each with the keyword arguments it is given.  A trace
  object is identified by the position of the call that opened it.
\<close>

datatype call =
    Trace dict
  | Trace_update nat dict
  | Generation nat dict
  | Generation_end nat dict
  | Event nat dict
  | Flush

text \<open>
  \<open>valves\<close>, \<open>langfuse\<close> (is a client set, or is it \<open>None\<close>), \<open>chat_traces\<close> and
  \<open>model_names\<close> are the attributes of the \<open>Pipeline\<close> object.  The other fields are
  the environment: the source of random UUIDs and how many have been drawn, the outcomes
  of the coming SDK calls (\<open>False\<close>: the call raises; when the list is used up every
  call succeeds), the SDK calls attempted so far with their outcomes, and the lines
  printed.  Of the printed lines only those reporting a warning or a failure are
  recorded, by their fixed text.
\<close>

record state =
  valves :: valves
  langfuse :: bool
  chat_traces :: "(json \<times> nat) list"
  model_names :: "(json \<times> dict) list"
  uuid_source :: "nat \<Rightarrow> string"
  uuid_count :: nat
  backend_script :: "bool list"
  backend_log :: "(call \<times> bool) list"
  printed :: "string list"

definition uuid4 :: "state \<Rightarrow> string \<times> state" where
  "uuid4 s = (uuid_source s (uuid_count s), s\<lparr>uuid_count := Suc (uuid_count s)\<rparr>)"

definition print :: "string \<Rightarrow> state \<Rightarrow> state" where
  "print msg s = s\<lparr>printed := printed s @ [msg]\<rparr>"

definition log :: "string \<Rightarrow> state \<Rightarrow> state" where
  "log msg s = (if debug (valves s) then print msg s else s)"

definition sdk_call :: "call \<Rightarrow> state \<Rightarrow> (error + unit) \<times> state" where
  "sdk_call c s =
     (let ok = (case backend_script s of [] \<Rightarrow> True | b # bs \<Rightarrow> b);
          s' = s\<lparr>backend_script := tl (backend_script s),
                 backend_log := backend_log s @ [(c, ok)]\<rparr>
      in (if ok then Inr () else Inl BackendError, s'))"

text \<open>
  \<open>try: <an SDK call> except Exception as e: self.log(msg)\<close>, the guard of
  \<open>pipelines-3.py\<close> around its calls on a trace.
\<close>

definition try_call :: "call \<Rightarrow> string \<Rightarrow> state \<Rightarrow> state" where
  "try_call c msg s = (case sdk_call c s of (Inl e, s') \<Rightarrow> log msg s' | (Inr x, s') \<Rightarrow> s')"

text \<open>\<open>self.langfuse.trace(**payload)\<close>: an attribute error when no client is set.\<close>

definition langfuse_trace :: "dict \<Rightarrow> state \<Rightarrow> (error + nat) \<times> state" where
  "langfuse_trace payload s =
     (if \<not> langfuse s then (Inl AttributeError, s)
      else case sdk_call (Trace payload) s of
             (Inl e, s') \<Rightarrow> (Inl e, s')
           | (Inr u, s') \<Rightarrow> (Inr (length (backend_log s)), s'))"

section \<open>Code shared by both pipelines\<close>

text \<open>
  \<open>get_last_assistant_message_obj\<close>: \<open>reversed\<close> accepts a list, a string (whose
  items are one-character strings) and a dictionary (whose items are its keys).
\<close>

definition reversed :: "json \<Rightarrow> error + json list" where
  "reversed v =
     (case v of
        JList xs \<Rightarrow> Inr (rev xs)
      | JStr cs \<Rightarrow> Inr (map (\<lambda>c. JStr [c]) (rev cs))
      | JDict d \<Rightarrow> Inr (map (\<lambda>p. JStr (fst p)) (rev d))
      | _ \<Rightarrow> Inl TypeError)"

fun first_assistant :: "json list \<Rightarrow> error + dict" where
  "first_assistant [] = Inr []"
| "first_assistant (message # rest) =
     (case subscript message ''role'' of
        Inl e \<Rightarrow> Inl e
      | Inr role \<Rightarrow>
          if role = JStr ''assistant''
          then (case message of JDict d \<Rightarrow> Inr d | _ \<Rightarrow> Inl TypeError)
          else first_assistant rest)"

definition get_last_assistant_message_obj :: "json \<Rightarrow> error + dict" where
  "get_last_assistant_message_obj messages =
     (case reversed messages of
        Inl e \<Rightarrow> Inl e
      | Inr ms \<Rightarrow> first_assistant ms)"

text \<open>\<open>_build_tags\<close>.\<close>

definition build_tags :: "state \<Rightarrow> json \<Rightarrow> json list" where
  "build_tags s task_name =
     (if insert_tags (valves s)
      then [JStr ''open-webui''] @
           (if task_name \<notin> set [JStr ''user_response'', JStr ''llm_response'']
            then [task_name] else [])
      else [])"

text \<open>\<open>task_name in self.GENERATION_TASKS\<close>, a set: the task name is hashed.\<close>

definition in_generation_tasks :: "json \<Rightarrow> error + bool" where
  "in_generation_tasks task_name =
     (case hkey task_name of
        Inl e \<Rightarrow> Inl e
      | Inr k \<Rightarrow> Inr (k = JStr ''llm_response''))"

text \<open>
  The usage block of both outlets, from \<open>usage = None\<close> to the end of the
  \<open>if assistant_message_obj\<close> statement; the result is the final value of \<open>usage\<close>.
\<close>

definition extract_usage :: "dict \<Rightarrow> json" where
  "extract_usage assistant_message_obj =
     (if assistant_message_obj \<noteq> [] then
        (case get_or assistant_message_obj ''usage'' (JDict []) of
           JDict info \<Rightarrow>
             (let input_tokens = py_or (get info ''prompt_eval_count'') (get info ''prompt_tokens'');
                  output_tokens = py_or (get info ''eval_count'') (get info ''completion_tokens'')
              in if input_tokens \<noteq> JNone \<and> output_tokens \<noteq> JNone
                 then JDict [(''input'', input_tokens), (''output'', output_tokens),
                             (''unit'', JStr ''TOKENS'')]
                 else JNone)
         | _ \<Rightarrow> JNone)
      else JNone)"

text \<open>\<open>body[k]\<close>.\<close>

definition item :: "dict \<Rightarrow> string \<Rightarrow> error + json" where
  "item d k = (case map_of d k of None \<Rightarrow> Inl (KeyError k) | Some v \<Rightarrow> Inr v)"

text \<open>The optional \<open>tags\<close> entry of a payload.\<close>

definition tags_entry :: "json list \<Rightarrow> dict" where
  "tags_entry tags_list = (if tags_list \<noteq> [] then [(''tags'', JList tags_list)] else [])"

text \<open>
  \<open>metadata = body.get("metadata", {})\<close> in an outlet is the object stored in the body
  when the body has that key, and a new dictionary otherwise.  Writes to \<open>metadata\<close>
  show in the body in the first case only.
\<close>

definition sync_metadata :: "dict \<Rightarrow> dict \<Rightarrow> dict" where
  "sync_metadata body metadata =
     (if has_key body ''metadata'' then dset body ''metadata'' (JDict metadata) else body)"

text \<open>The entry of \<open>self.model_names\<close> for a key, \<open>{}\<close> when there is none.\<close>

definition model_record :: "state \<Rightarrow> json \<Rightarrow> dict" where
  "model_record s k = (case map_of (model_names s) k of None \<Rightarrow> [] | Some r \<Rightarrow> r)"

section \<open>pipelines-1: the strict pipeline\<close>

text \<open>
  \<open>Pipeline.inlet\<close> of \<open>pipelines-1.py\<close>, in the order of the source.  Every part
  returns the state it leaves and either the error raised or its results.

  First part: from \<open>metadata = body.get("metadata", {})\<close> to
  \<open>body["metadata"] = metadata\<close>.  The default argument of \<open>get\<close> draws a UUID
  whether it is used or not.  The results are \<open>chat_id\<close>, \<open>metadata\<close> and the body.
  From the last assignment on \<open>metadata\<close> is the object stored in the body.
\<close>

definition inlet_1_metadata :: "dict \<Rightarrow> state \<Rightarrow> (error + json \<times> dict \<times> dict) \<times> state" where
  "inlet_1_metadata body s =
     (case attr_get (get_or body ''metadata'' (JDict [])) of
        Inl e \<Rightarrow> (Inl e, s)
      | Inr metadata \<Rightarrow>
          (let (u, s1) = uuid4 s;
               chat_id = get_or metadata ''chat_id'' (JStr u);
               (chat_id, s2) =
                 (if chat_id = JStr ''local''
                  then (let (u2, s2) = uuid4 s1;
                            session_id = get_or metadata ''session_id'' (JStr u2)
                        in (JStr (''temporary-session-'' @ py_str session_id), s2))
                  else (chat_id, s1));
               metadata = dset metadata ''chat_id'' chat_id;
               body = dset body ''metadata'' (JDict metadata)
           in (Inr (chat_id, metadata, body), s2)))"

text \<open>
  Second part, "Extract and store model info".  \<open>chat_id not in self.model_names\<close>
  hashes \<open>chat_id\<close>; the result is the key under which the dictionaries of the
  pipeline hold it.
\<close>

definition inlet_1_model_info :: "json \<Rightarrow> dict \<Rightarrow> dict \<Rightarrow> state \<Rightarrow> (error + json) \<times> state" where
  "inlet_1_model_info chat_id metadata body s =
     (let model_info = get_or metadata ''model'' (JDict []);
          model_id = get body ''model''
      in case hkey chat_id of
           Inl e \<Rightarrow> (Inl e, s)
         | Inr k \<Rightarrow>
             (let names =
                    (case map_of (model_names s) k of
                       None \<Rightarrow> AList.update k [(''id'', model_id)] (model_names s)
                     | Some r \<Rightarrow> AList.update k (dset r ''id'' model_id) (model_names s));
                  s1 = s\<lparr>model_names := names\<rparr>;
                  s2 = (case model_info of
                          JDict mi \<Rightarrow>
                            (case map_of mi ''name'' of
                               Some n \<Rightarrow>
                                 s1\<lparr>model_names :=
                                      AList.update k (dset (model_record s1 k) ''name'' n)
                                        (model_names s1)\<rparr>
                             | None \<Rightarrow> s1)
                        | _ \<Rightarrow> s1)
              in (Inr k, s2)))"

text \<open>Third part: the required keys.\<close>

definition inlet_1_required_keys :: "dict \<Rightarrow> state \<Rightarrow> (error + unit) \<times> state" where
  "inlet_1_required_keys body s =
     (let required_keys = [''model'', ''messages''];
          missing_keys = filter (\<lambda>key. \<not> has_key body key) required_keys
      in if missing_keys \<noteq> []
         then (Inl (ValueError missing_keys), log ''Error: Missing keys in request body'' s)
         else (Inr (), s))"

definition user_email_1 :: "dict option \<Rightarrow> json" where
  "user_email_1 user =
     (case user of
        None \<Rightarrow> JNone
      | Some u \<Rightarrow> if u \<noteq> [] then get u ''email'' else JNone)"

text \<open>
  Fourth part: the trace of the chat is opened, or the registered one is reused.  The
  result is the trace.
\<close>

definition inlet_1_trace ::
  "json \<Rightarrow> json \<Rightarrow> dict \<Rightarrow> dict \<Rightarrow> dict option \<Rightarrow> json list \<Rightarrow> state \<Rightarrow> (error + nat) \<times> state" where
  "inlet_1_trace chat_id k metadata body user tags_list s =
     (case map_of (chat_traces s) k of
        None \<Rightarrow>
          (let trace_payload =
                 [(''name'', JStr (''chat:'' @ py_str chat_id)),
                  (''input'', JDict body),
                  (''user_id'', user_email_1 user),
                  (''metadata'', JDict metadata),
                  (''session_id'', chat_id)] @ tags_entry tags_list
           in case langfuse_trace trace_payload s of
                (Inr trace, s1) \<Rightarrow>
                  (Inr trace, s1\<lparr>chat_traces := AList.update k trace (chat_traces s1)\<rparr>)
              | (Inl e, s1) \<Rightarrow> (Inl e, log ''Failed to create Langfuse trace'' s1))
      | Some trace \<Rightarrow>
          if tags_list \<noteq> []
          then (case sdk_call (Trace_update trace [(''tags'', JList tags_list)]) s of
                  (Inl e, s1) \<Rightarrow> (Inl e, s1)
                | (Inr u, s1) \<Rightarrow> (Inr trace, s1))
          else (Inr trace, s))"

text \<open>
  Last part: the metadata is completed and the generation or the event is recorded.
  The result is the body, which holds the metadata.
\<close>

definition inlet_1_record ::
  "json \<Rightarrow> nat \<Rightarrow> json \<Rightarrow> json list \<Rightarrow> dict \<Rightarrow> dict \<Rightarrow> state \<Rightarrow> (error + dict) \<times> state" where
  "inlet_1_record k trace task_name tags_list metadata body s =
     (let metadata = dset metadata ''type'' task_name;
          metadata = dset metadata ''interface'' (JStr ''open-webui'')
      in case in_generation_tasks task_name of
           Inl e \<Rightarrow> (Inl e, s)
         | Inr True \<Rightarrow>
             (case item body ''model'' of
                Inl e \<Rightarrow> (Inl e, s)
              | Inr body_model \<Rightarrow>
                  (let model_id = get_or (model_record s k) ''id'' body_model;
                       model_name = get_or (model_record s k) ''name'' (JStr ''unknown'');
                       model_value =
                         (if use_model_name_instead_of_id_for_generation (valves s)
                          then model_name else model_id);
                       metadata = dset metadata ''model_id'' model_id;
                       metadata = dset metadata ''model_name'' model_name;
                       (u, s1) = uuid4 s
                   in case item body ''messages'' of
                        Inl e \<Rightarrow> (Inl e, s1)
                      | Inr messages \<Rightarrow>
                          (let generation_payload =
                                 [(''name'', JStr (py_str task_name @ '':'' @ u)),
                                  (''model'', model_value),
                                  (''input'', messages),
                                  (''metadata'', JDict metadata)] @ tags_entry tags_list
                           in case sdk_call (Generation trace generation_payload) s1 of
                                (Inl e, s2) \<Rightarrow>
                                  (Inl e, log ''Failed to create Langfuse generation'' s2)
                              | (Inr x, s2) \<Rightarrow>
                                  (Inr (dset body ''metadata'' (JDict metadata)), s2))))
         | Inr False \<Rightarrow>
             (let (u, s1) = uuid4 s
              in case item body ''messages'' of
                   Inl e \<Rightarrow> (Inl e, s1)
                 | Inr messages \<Rightarrow>
                     (let event_payload =
                            [(''name'', JStr (py_str task_name @ '':'' @ u)),
                             (''metadata'', JDict metadata),
                             (''input'', messages)] @ tags_entry tags_list
                      in case sdk_call (Event trace event_payload) s1 of
                           (Inl e, s2) \<Rightarrow> (Inl e, log ''Failed to create Langfuse event'' s2)
                         | (Inr x, s2) \<Rightarrow>
                             (Inr (dset body ''metadata'' (JDict metadata)), s2))))"

definition inlet_1 :: "dict \<Rightarrow> dict option \<Rightarrow> state \<Rightarrow> (error + dict) \<times> state" where
  "inlet_1 body user s =
     (case inlet_1_metadata body s of
        (Inl e, s1) \<Rightarrow> (Inl e, s1)
      | (Inr (chat_id, metadata, body1), s1) \<Rightarrow>
     (case inlet_1_model_info chat_id metadata body1 s1 of
        (Inl e, s2) \<Rightarrow> (Inl e, s2)
      | (Inr k, s2) \<Rightarrow>
     (case inlet_1_required_keys body1 s2 of
        (Inl e, s3) \<Rightarrow> (Inl e, s3)
      | (Inr x, s3) \<Rightarrow>
          (let task_name = get_or metadata ''task'' (JStr ''user_response'');
               tags_list = build_tags s3 task_name
           in case inlet_1_trace chat_id k metadata body1 user tags_list s3 of
                (Inl e, s4) \<Rightarrow> (Inl e, s4)
              | (Inr trace, s4) \<Rightarrow>
                  inlet_1_record k trace task_name tags_list metadata body1 s4))))"

text \<open>
  \<open>Pipeline.outlet\<close> of \<open>pipelines-1.py\<close>.  \<open>get_last_assistant_message\<close> is
  imported from \<open>utils.pipelines.main\<close> and is a parameter here: a function of the
  message list that returns a value or raises.

  First the part that follows the lookup of the trace, from
  \<open>assistant_message = ...\<close> to the end.
\<close>

definition outlet_1_record ::
  "(json \<Rightarrow> error + json) \<Rightarrow> json \<Rightarrow> nat \<Rightarrow> json \<Rightarrow> json list \<Rightarrow> dict \<Rightarrow> dict \<Rightarrow> state
     \<Rightarrow> (error + dict) \<times> state" where
  "outlet_1_record get_last_assistant_message k trace task_name tags_list metadata body s =
     (case item body ''messages'' of
        Inl e \<Rightarrow> (Inl e, s)
      | Inr messages \<Rightarrow>
     (case get_last_assistant_message messages of
        Inl e \<Rightarrow> (Inl e, s)
      | Inr assistant_message \<Rightarrow>
     (case get_last_assistant_message_obj messages of
        Inl e \<Rightarrow> (Inl e, s)
      | Inr assistant_message_obj \<Rightarrow>
     (let usage = extract_usage assistant_message_obj
      in case sdk_call (Trace_update trace [(''output'', assistant_message)]) s of
           (Inl e, s1) \<Rightarrow> (Inl e, s1)
         | (Inr x, s1) \<Rightarrow>
     (let metadata = dset metadata ''type'' task_name;
          metadata = dset metadata ''interface'' (JStr ''open-webui'')
      in case in_generation_tasks task_name of
           Inl e \<Rightarrow> (Inl e, s1)
         | Inr True \<Rightarrow>
             (let model_id = get_or (model_record s1 k) ''id'' (get body ''model'');
                  model_name = get_or (model_record s1 k) ''name'' (JStr ''unknown'');
                  model_value =
                    (if use_model_name_instead_of_id_for_generation (valves s1)
                     then model_name else model_id);
                  metadata = dset metadata ''model_id'' model_id;
                  metadata = dset metadata ''model_name'' model_name;
                  (u, s2) = uuid4 s1;
                  generation_payload =
                    [(''name'', JStr (py_str task_name @ '':'' @ u)),
                     (''model'', model_value),
                     (''input'', messages),
                     (''metadata'', JDict metadata),
                     (''usage'', usage)] @ tags_entry tags_list
              in case sdk_call (Generation trace []) s2 of
                   (Inl e, s3) \<Rightarrow> (Inl e, log ''Failed to end Langfuse generation'' s3)
                 | (Inr x, s3) \<Rightarrow>
                     (case sdk_call (Generation_end trace generation_payload) s3 of
                        (Inl e, s4) \<Rightarrow> (Inl e, log ''Failed to end Langfuse generation'' s4)
                      | (Inr x, s4) \<Rightarrow> (Inr (sync_metadata body metadata), s4)))
         | Inr False \<Rightarrow>
             (let (u, s2) = uuid4 s1;
                  metadata = (if truthy usage then dset metadata ''usage'' usage else metadata);
                  event_payload =
                    [(''name'', JStr (py_str task_name @ '':'' @ u)),
                     (''metadata'', JDict metadata),
                     (''input'', messages)] @ tags_entry tags_list
              in case sdk_call (Event trace event_payload) s2 of
                   (Inl e, s3) \<Rightarrow> (Inl e, log ''Failed to log Langfuse event'' s3)
                 | (Inr x, s3) \<Rightarrow> (Inr (sync_metadata body metadata), s3)))))))"

text \<open>The conversation id of an outlet body, with the rewriting of \<open>"local"\<close>.\<close>

definition outlet_1_chat_id :: "dict \<Rightarrow> state \<Rightarrow> json \<times> state" where
  "outlet_1_chat_id body s =
     (let chat_id = get body ''chat_id''
      in if chat_id = JStr ''local''
         then (let (u, s1) = uuid4 s;
                   session_id = get_or body ''session_id'' (JStr u)
               in (JStr (''temporary-session-'' @ py_str session_id), s1))
         else (chat_id, s))"

definition outlet_1 ::
  "(json \<Rightarrow> error + json) \<Rightarrow> dict \<Rightarrow> dict option \<Rightarrow> state \<Rightarrow> (error + dict) \<times> state" where
  "outlet_1 get_last_assistant_message body user s =
     (let (chat_id, s1) = outlet_1_chat_id body s
      in case attr_get (get_or body ''metadata'' (JDict [])) of
           Inl e \<Rightarrow> (Inl e, s1)
         | Inr metadata \<Rightarrow>
             (let task_name = get_or metadata ''task'' (JStr ''llm_response'');
                  tags_list = build_tags s1 task_name
              in case hkey chat_id of
                   Inl e \<Rightarrow> (Inl e, s1)
                 | Inr k \<Rightarrow>
                     (case map_of (chat_traces s1) k of
                        None \<Rightarrow>
                          inlet_1 body user (log ''[WARNING] No matching trace for chat_id'' s1)
                      | Some trace \<Rightarrow>
                          outlet_1_record get_last_assistant_message k trace task_name tags_list
                            metadata body s1)))"

section \<open>pipelines-3: the defensive pipeline\<close>

text \<open>
  \<open>_extract_metadata\<close>, by its sections.  Where the metadata is built, the body has no
  \<open>"metadata"\<close> key, so \<open>body.get("metadata", {})\<close> is the empty dictionary.  The
  operands of \<open>or\<close> are evaluated from the left and only as far as needed: a UUID is
  drawn only when no conversation id is found.

  "Extract chat_id from various possible locations" and "Handle temporary chats":
\<close>

definition extract_chat_id :: "dict \<Rightarrow> state \<Rightarrow> json \<times> state" where
  "extract_chat_id body s =
     (let found = py_or (get body ''chat_id'') (get [] ''chat_id'');
          (chat_id, s1) =
            (if truthy found then (found, s)
             else (let (u, s1) = uuid4 s in (JStr u, s1)))
      in if chat_id = JStr ''local''
         then (let session_id = py_or (get body ''session_id'') (get [] ''session_id'')
               in if truthy session_id
                  then (JStr (''temporary-session-'' @ py_str session_id), s1)
                  else (chat_id, s1))
         else (chat_id, s1))"

text \<open>\<open>if key in body: metadata[key] = body[key]\<close>.\<close>

definition copy_key :: "string \<Rightarrow> dict \<Rightarrow> dict \<Rightarrow> dict" where
  "copy_key key body metadata =
     (if has_key body key then dset metadata key (get body key) else metadata)"

text \<open>"Extract other useful metadata" and "Extract model info":\<close>

definition extract_fields :: "dict \<Rightarrow> dict \<Rightarrow> dict" where
  "extract_fields body metadata =
     (let metadata = copy_key ''user_id'' body metadata;
          metadata = copy_key ''message_id'' body metadata;
          metadata = copy_key ''session_id'' body metadata;
          metadata = copy_key ''interface'' body metadata;
          metadata = copy_key ''type'' body metadata
      in if has_key body ''model''
         then (case get body ''model'' of
                 JDict d \<Rightarrow> dset metadata ''model'' (JDict d)
               | JStr m \<Rightarrow> dset metadata ''model'' (JDict [(''id'', JStr m)])
               | _ \<Rightarrow> metadata)
         else metadata)"

definition extract_metadata :: "dict \<Rightarrow> state \<Rightarrow> json \<times> state" where
  "extract_metadata body s =
     (case map_of body ''metadata'' of
        Some m \<Rightarrow> (m, s)
      | None \<Rightarrow>
          (let (chat_id, s1) = extract_chat_id body s;
               metadata = [(''chat_id'', chat_id)]
           in (JDict (extract_fields body metadata), s1)))"

text \<open>
  \<open>Pipeline.inlet\<close> of \<open>pipelines-3.py\<close>.  The model id and name found on the
  request:
\<close>

definition inlet_3_model :: "json \<Rightarrow> json \<Rightarrow> json \<times> json" where
  "inlet_3_model model_id model_info =
     (case model_id of
        JDict d \<Rightarrow> (get_or d ''id'' (JStr ''unknown''), get_or d ''name'' (JStr ''unknown''))
      | JStr m \<Rightarrow>
          (JStr m,
           case model_info of
             JDict mi \<Rightarrow> get_or mi ''name'' (JStr ''unknown'')
           | _ \<Rightarrow> JStr ''unknown'')
      | _ \<Rightarrow> (JStr ''unknown'', JStr ''unknown''))"

text \<open>"Check for required keys": a missing message list is made up.\<close>

definition inlet_3_messages :: "dict \<Rightarrow> state \<Rightarrow> dict \<times> state" where
  "inlet_3_messages body s =
     (if \<not> has_key body ''messages'' \<and> \<not> has_key body ''input''
      then (if has_key body ''prompt''
            then (dset body ''messages''
                    (JList [JDict [(''role'', JStr ''user''), (''content'', get body ''prompt'')]]), s)
            else (dset body ''messages'' (JList []),
                  log ''Warning: No messages or input found in body'' s))
      else (body, s))"

definition user_email_3 :: "dict option \<Rightarrow> dict \<Rightarrow> json" where
  "user_email_3 user metadata =
     (case user of
        None \<Rightarrow> get metadata ''user_id''
      | Some u \<Rightarrow> if u \<noteq> [] then get u ''email'' else get metadata ''user_id'')"

text \<open>
  The trace of the chat is opened, or the registered one is reused.  The result is the
  trace, or \<open>None\<close> when opening it failed and the inlet returns the body at once.
\<close>

definition inlet_3_trace ::
  "json \<Rightarrow> json \<Rightarrow> dict \<Rightarrow> dict \<Rightarrow> dict option \<Rightarrow> json list \<Rightarrow> state \<Rightarrow> nat option \<times> state" where
  "inlet_3_trace chat_id k metadata body user tags_list s =
     (case map_of (chat_traces s) k of
        None \<Rightarrow>
          (let trace_payload =
                 [(''name'', JStr (''chat:'' @ py_str chat_id)),
                  (''input'', get_or body ''messages'' (JDict body)),
                  (''user_id'', user_email_3 user metadata),
                  (''metadata'', JDict metadata),
                  (''session_id'', chat_id)] @ tags_entry tags_list
           in case langfuse_trace trace_payload s of
                (Inr trace, s1) \<Rightarrow>
                  (Some trace, s1\<lparr>chat_traces := AList.update k trace (chat_traces s1)\<rparr>)
              | (Inl e, s1) \<Rightarrow> (None, log ''Error creating trace'' s1))
      | Some trace \<Rightarrow>
          if tags_list \<noteq> []
          then (Some trace,
                try_call (Trace_update trace [(''tags'', JList tags_list)])
                  ''Error updating trace tags'' s)
          else (Some trace, s))"

text \<open>
  "Handle generation or event logging": the \<open>try\<close> statement that ends the inlet.
  The result is the metadata as the statement leaves it.
\<close>

definition inlet_3_record ::
  "nat \<Rightarrow> json \<Rightarrow> json list \<Rightarrow> json \<Rightarrow> json \<Rightarrow> dict \<Rightarrow> dict \<Rightarrow> state \<Rightarrow> dict \<times> state" where
  "inlet_3_record trace task_name tags_list actual_model_id model_name metadata body s =
     (case in_generation_tasks task_name of
        Inl e \<Rightarrow> (metadata, log ''Error logging to Langfuse'' s)
      | Inr True \<Rightarrow>
          (let model_value =
                 (if use_model_name_instead_of_id_for_generation (valves s)
                  then model_name else actual_model_id);
               metadata = dset metadata ''model_id'' actual_model_id;
               metadata = dset metadata ''model_name'' model_name;
               (u, s1) = uuid4 s;
               generation_payload =
                 [(''name'', JStr (py_str task_name @ '':'' @ u)),
                  (''model'', model_value),
                  (''input'', get_or body ''messages'' (JList [])),
                  (''metadata'', JDict metadata)] @ tags_entry tags_list
           in (metadata,
               try_call (Generation trace generation_payload) ''Error logging to Langfuse'' s1))
      | Inr False \<Rightarrow>
          (let (u, s1) = uuid4 s;
               event_payload =
                 [(''name'', JStr (py_str task_name @ '':'' @ u)),
                  (''metadata'', JDict metadata),
                  (''input'', get_or body ''messages'' (JDict body))] @ tags_entry tags_list
           in (metadata,
               try_call (Event trace event_payload) ''Error logging to Langfuse'' s1)))"

definition inlet_3 :: "dict \<Rightarrow> dict option \<Rightarrow> state \<Rightarrow> (error + dict) \<times> state" where
  "inlet_3 body user s =
     (let (extracted, s1) = extract_metadata body s
      in case attr_get extracted of
           Inl e \<Rightarrow> (Inl e, s1)
         | Inr metadata \<Rightarrow>
             (let chat_id = get metadata ''chat_id'';
                  body = dset body ''metadata'' (JDict metadata);
                  model_info = get_or metadata ''model'' (JDict []);
                  model_id = get body ''model'';
                  (actual_model_id, model_name) = inlet_3_model model_id model_info
              in case hkey chat_id of
                   Inl e \<Rightarrow> (Inl e, s1)
                 | Inr k \<Rightarrow>
                     (let names =
                            (case map_of (model_names s1) k of
                               None \<Rightarrow>
                                 AList.update k
                                   [(''id'', actual_model_id), (''name'', model_name)]
                                   (model_names s1)
                             | Some r \<Rightarrow>
                                 AList.update k
                                   (dset (dset r ''id'' actual_model_id) ''name'' model_name)
                                   (model_names s1));
                          s2 = s1\<lparr>model_names := names\<rparr>;
                          (body, s3) = inlet_3_messages body s2;
                          task_name =
                            get_or metadata ''task''
                              (get_or metadata ''type'' (JStr ''user_response''));
                          tags_list = build_tags s3 task_name
                      in case inlet_3_trace chat_id k metadata body user tags_list s3 of
                           (None, s4) \<Rightarrow> (Inr body, s4)
                         | (Some trace, s4) \<Rightarrow>
                             (let metadata = dset metadata ''type'' task_name;
                                  metadata =
                                    dset metadata ''interface''
                                      (get_or metadata ''interface'' (JStr ''open-webui''));
                                  body = dset body ''metadata'' (JDict metadata);
                                  (metadata, s5) =
                                    inlet_3_record trace task_name tags_list actual_model_id
                                      model_name metadata body s4
                              in (Inr (dset body ''metadata'' (JDict metadata)), s5)))))"

text \<open>
  \<open>Pipeline.outlet\<close> of \<open>pipelines-3.py\<close>.
  \<open>body.get(key) or body.get("metadata", {}).get(key)\<close>:
\<close>

definition get_nested :: "dict \<Rightarrow> string \<Rightarrow> error + json" where
  "get_nested body key =
     (if truthy (get body key) then Inr (get body key)
      else (case attr_get (get_or body ''metadata'' (JDict [])) of
              Inl e \<Rightarrow> Inl e
            | Inr m \<Rightarrow> Inr (get m key)))"

definition outlet_3_chat_id :: "dict \<Rightarrow> error + json" where
  "outlet_3_chat_id body =
     (case get_nested body ''chat_id'' of
        Inl e \<Rightarrow> Inl e
      | Inr chat_id \<Rightarrow>
          if chat_id = JStr ''local''
          then (case get_nested body ''session_id'' of
                  Inl e \<Rightarrow> Inl e
                | Inr session_id \<Rightarrow>
                    Inr (if truthy session_id
                         then JStr (''temporary-session-'' @ py_str session_id)
                         else chat_id))
          else Inr chat_id)"

text \<open>
  "Handle generation completion or event logging": the inner \<open>try\<close> statement.
  The result is the metadata as the statement leaves it.
\<close>

definition outlet_3_emit ::
  "json \<Rightarrow> nat \<Rightarrow> json \<Rightarrow> json list \<Rightarrow> json \<Rightarrow> json \<Rightarrow> json \<Rightarrow> dict \<Rightarrow> state \<Rightarrow> dict \<times> state" where
  "outlet_3_emit k trace task_name tags_list messages assistant_message usage metadata s =
     (case in_generation_tasks task_name of
        Inl e \<Rightarrow> (metadata, log ''Error completing Langfuse logging'' s)
      | Inr True \<Rightarrow>
          (let model_id = get_or (model_record s k) ''id'' (JStr ''unknown'');
               model_name = get_or (model_record s k) ''name'' (JStr ''unknown'');
               model_value =
                 (if use_model_name_instead_of_id_for_generation (valves s)
                  then model_name else model_id);
               metadata = dset metadata ''model_id'' model_id;
               metadata = dset metadata ''model_name'' model_name;
               (u, s1) = uuid4 s;
               generation_payload =
                 [(''name'', JStr (py_str task_name @ '':'' @ u)),
                  (''model'', model_value),
                  (''input'', messages),
                  (''output'', assistant_message),
                  (''metadata'', JDict metadata)]
                 @ (if truthy usage then [(''usage'', usage)] else [])
                 @ tags_entry tags_list
           in case sdk_call (Generation trace []) s1 of
                (Inl e, s2) \<Rightarrow> (metadata, log ''Error completing Langfuse logging'' s2)
              | (Inr x, s2) \<Rightarrow>
                  (metadata,
                   try_call (Generation_end trace generation_payload)
                     ''Error completing Langfuse logging'' s2))
      | Inr False \<Rightarrow>
          (let (u, s1) = uuid4 s;
               metadata = (if truthy usage then dset metadata ''usage'' usage else metadata);
               event_payload =
                 [(''name'', JStr (py_str task_name @ '':'' @ u)),
                  (''metadata'', JDict metadata),
                  (''input'', messages),
                  (''output'', assistant_message)] @ tags_entry tags_list
           in (metadata,
               try_call (Event trace event_payload) ''Error completing Langfuse logging'' s1)))"

text \<open>From \<open>messages = body.get("messages", [])\<close> to the \<open>return body\<close> that follows
  the inner \<open>try\<close> statement.\<close>

definition outlet_3_record ::
  "(json \<Rightarrow> error + json) \<Rightarrow> json \<Rightarrow> nat \<Rightarrow> json \<Rightarrow> json list \<Rightarrow> dict \<Rightarrow> dict \<Rightarrow> state
     \<Rightarrow> (error + dict) \<times> state" where
  "outlet_3_record get_last_assistant_message k trace task_name tags_list metadata body s =
     (let messages = get_or body ''messages'' (JList [])
      in case (if truthy messages then get_last_assistant_message messages else Inr (JStr [])) of
           Inl e \<Rightarrow> (Inl e, s)
         | Inr assistant_message \<Rightarrow>
     (case (if truthy messages then get_last_assistant_message_obj messages else Inr []) of
        Inl e \<Rightarrow> (Inl e, s)
      | Inr assistant_message_obj \<Rightarrow>
     (let usage = extract_usage assistant_message_obj;
          s1 = try_call (Trace_update trace [(''output'', py_or assistant_message (JDict body))])
                 ''Error updating trace output'' s;
          metadata = dset metadata ''type'' task_name;
          metadata = dset metadata ''interface'' (get_or metadata ''interface'' (JStr ''open-webui''));
          (metadata, s2) =
            outlet_3_emit k trace task_name tags_list messages assistant_message usage
              metadata s1
      in (Inr (sync_metadata body metadata), s2))))"

text \<open>
  The body of the outer \<open>try\<close> statement.  No statement that can raise outside the
  inner \<open>try\<close> statements comes after a write to \<open>metadata\<close>, so when this part
  raises, the body is as it was received.
\<close>

definition outlet_3_try ::
  "(json \<Rightarrow> error + json) \<Rightarrow> dict \<Rightarrow> state \<Rightarrow> (error + dict) \<times> state" where
  "outlet_3_try get_last_assistant_message body s =
     (case outlet_3_chat_id body of
        Inl e \<Rightarrow> (Inl e, s)
      | Inr chat_id \<Rightarrow>
          if \<not> truthy chat_id
          then (Inr body, log ''Warning: No chat_id found in outlet'' s)
          else
            (case attr_get (get_or body ''metadata'' (JDict [])) of
               Inl e \<Rightarrow> (Inl e, s)
             | Inr metadata \<Rightarrow>
                 (let task_name =
                        get_or metadata ''task''
                          (get_or metadata ''type'' (JStr ''llm_response''));
                      tags_list = build_tags s task_name
                  in case hkey chat_id of
                       Inl e \<Rightarrow> (Inl e, s)
                     | Inr k \<Rightarrow>
                         (case map_of (chat_traces s) k of
                            None \<Rightarrow>
                              (Inr body,
                               log ''[WARNING] No matching trace found for chat_id'' s)
                          | Some trace \<Rightarrow>
                              outlet_3_record get_last_assistant_message k trace task_name
                                tags_list metadata body s))))"

text \<open>The \<open>finally\<close> clause: the flush, when a client is set.\<close>

definition outlet_3_finally :: "state \<Rightarrow> state" where
  "outlet_3_finally s =
     (if langfuse s
      then (case sdk_call Flush s of
              (Inl e, s1) \<Rightarrow> print ''[ERROR] Failed to flush Langfuse'' s1
            | (Inr x, s1) \<Rightarrow> s1)
      else s)"

definition outlet_3 ::
  "(json \<Rightarrow> error + json) \<Rightarrow> dict \<Rightarrow> dict option \<Rightarrow> state \<Rightarrow> (error + dict) \<times> state" where
  "outlet_3 get_last_assistant_message body user s =
     (case outlet_3_try get_last_assistant_message body s of
        (Inl e, s1) \<Rightarrow> (Inr body, outlet_3_finally (log ''Error in outlet'' s1))
      | (Inr returned, s1) \<Rightarrow> (Inr returned, outlet_3_finally s1))"

section \<open>Notions used in the proofs\<close>

text \<open>
  \<open>on_trace c\<close>: the SDK call \<open>c\<close> is made on a trace object, so it neither opens a
  trace nor flushes.  \<open>steps s s'\<close>: from \<open>s\<close> to \<open>s'\<close> the valves, the client, the
  source of UUIDs, \<open>chat_traces\<close> and \<open>model_names\<close> are kept and only calls on trace
  objects are added to the log.  \<open>reports s s'\<close>: SDK calls and printed lines are added
  and, with the debug valve set, there are at least as many new lines as new calls that
  failed.
\<close>

definition on_trace :: "call \<Rightarrow> bool" where
  "on_trace c = (case c of Trace p \<Rightarrow> False | Flush \<Rightarrow> False | _ \<Rightarrow> True)"

definition steps :: "state \<Rightarrow> state \<Rightarrow> bool" where
  "steps s s' =
     (valves s' = valves s \<and> langfuse s' = langfuse s \<and> uuid_source s' = uuid_source s
      \<and> chat_traces s' = chat_traces s \<and> model_names s' = model_names s
      \<and> (\<exists>new. backend_log s' = backend_log s @ new \<and> (\<forall>c\<in>set new. on_trace (fst c))))"

definition reports :: "state \<Rightarrow> state \<Rightarrow> bool" where
  "reports s s' =
     (valves s' = valves s
      \<and> (\<exists>new p. backend_log s' = backend_log s @ new \<and> printed s' = printed s @ p
            \<and> (debug (valves s) \<longrightarrow> length (filter (\<lambda>c. \<not> snd c) new) \<le> length p)))"


section \<open>Inputs of the examples\<close>

text \<open>
  A pipeline after start-up: a client is set, no chat is known, the valves have their
  defaults except \<open>debug\<close>, which is set.  Every SDK call succeeds unless a script
  is given.
\<close>

definition example_state :: state where
  "example_state =
     \<lparr>valves = \<lparr>insert_tags = True, use_model_name_instead_of_id_for_generation = False,
                debug = True\<rparr>,
      langfuse = True, chat_traces = [], model_names = [],
      uuid_source = (\<lambda>n. ''uuid-'' @ show_nat n), uuid_count = 0,
      backend_script = [], backend_log = [], printed = []\<rparr>"

text \<open>A stand-in for the imported \<open>get_last_assistant_message\<close>: the content of the last
  assistant message, the empty string when there is none.\<close>

definition example_last_message :: "json \<Rightarrow> error + json" where
  "example_last_message messages =
     (case get_last_assistant_message_obj messages of
        Inl e \<Rightarrow> Inl e
      | Inr d \<Rightarrow> Inr (get_or d ''content'' (JStr [])))"

text \<open>The request and the response of the scenarios of the specification.\<close>

definition example_request :: dict where
  "example_request =
     [(''model'', JStr ''gpt-4''),
      (''messages'', JList [JDict [(''role'', JStr ''user''), (''content'', JStr ''hi'')]]),
      (''metadata'', JDict [(''chat_id'', JStr ''c1''), (''task'', JStr ''user_response'')])]"

definition example_response :: dict where
  "example_response =
     [(''chat_id'', JStr ''c1''),
      (''model'', JStr ''gpt-4''),
      (''messages'',
       JList [JDict [(''role'', JStr ''user''), (''content'', JStr ''hi'')],
              JDict [(''role'', JStr ''assistant''), (''content'', JStr ''hello''),
                     (''usage'', JDict [(''prompt_tokens'', JInt 5),
                                        (''completion_tokens'', JInt 3)])]])]"


section \<open>Properties\<close>

subsection \<open>What the parts of the handlers keep\<close>

lemmas atoms = sdk_call_def try_call_def uuid4_def log_def print_def Let_def

lemma on_trace_simps [simp]:
  "on_trace (Trace_update h p)" "on_trace (Generation h p)" "on_trace (Generation_end h p)"
  "on_trace (Event h p)" "\<not> on_trace (Trace p)" "\<not> on_trace Flush"
  by (simp_all add: on_trace_def)

lemma steps_refl: "steps s s"
  by (simp add: steps_def)

lemma steps_log_only:
  assumes "steps s s'"
  shows "\<exists>mid. backend_log s' = backend_log s @ mid \<and> Flush \<notin> fst ` set mid
           \<and> (\<forall>p. Trace p \<notin> fst ` set mid)"
proof -
  from assms obtain new where n: "backend_log s' = backend_log s @ new"
    "\<forall>c\<in>set new. on_trace (fst c)"
    by (auto simp: steps_def)
  have "c \<in> fst ` set new \<Longrightarrow> on_trace c" for c
    using n(2) by auto
  then have "Flush \<notin> fst ` set new" "\<forall>p. Trace p \<notin> fst ` set new"
    using on_trace_simps(5,6) by blast+
  with n(1) show ?thesis by blast
qed

lemma steps_trans: "steps s s1 \<Longrightarrow> steps s1 s2 \<Longrightarrow> steps s s2"
  by (auto simp: steps_def)

lemma steps_log: "steps s (log msg s)"
  by (simp add: log_def print_def steps_def)

lemma steps_uuid4: "uuid4 s = (u, s') \<Longrightarrow> steps s s'"
  by (auto simp: uuid4_def steps_def)

lemma steps_sdk_call: "sdk_call c s = (r, s') \<Longrightarrow> on_trace c \<Longrightarrow> steps s s'"
  by (auto simp: sdk_call_def steps_def Let_def)

lemma steps_try_call: "on_trace c \<Longrightarrow> steps s (try_call c msg s)"
  by (auto simp: steps_def atoms split: sum.splits prod.splits if_splits list.splits)

lemma reports_refl: "reports s s"
  by (simp add: reports_def)

lemma reports_trans: "reports s s1 \<Longrightarrow> reports s1 s2 \<Longrightarrow> reports s s2"
  by (fastforce simp: reports_def)

lemma reports_log: "reports s (log msg s)"
  by (simp add: log_def print_def reports_def)

lemma reports_uuid4: "uuid4 s = (u, s') \<Longrightarrow> reports s s'"
  by (auto simp: uuid4_def reports_def)

lemma reports_try_call: "reports s (try_call c msg s)"
  by (auto simp: reports_def atoms split: sum.splits prod.splits if_splits list.splits)

lemma reports_sdk_call:
  "sdk_call c s = (Inl e, s') \<Longrightarrow> reports s (log msg s')"
  "sdk_call c s = (Inr x, s') \<Longrightarrow> reports s s'"
  by (auto simp: reports_def atoms split: if_splits list.splits)

lemma outlet_3_emit_frame:
  assumes "outlet_3_emit k trace task_name tags_list messages assistant_message usage metadata s = (m, s')"
  shows "steps s s'" and "reports s s'"
proof -
  obtain u s1 where u: "uuid4 s = (u, s1)"
    by (cases "uuid4 s")
  obtain r2 s2 where g: "sdk_call (Generation trace []) s1 = (r2, s2)"
    by (cases "sdk_call (Generation trace []) s1")
  note s1 = steps_uuid4 [OF u] reports_uuid4 [OF u]
  have s2: "steps s s2"
    using steps_trans [OF s1(1) steps_sdk_call [OF g]] by simp
  show "steps s s'"
    using assms u g unfolding outlet_3_emit_def Let_def
    by (auto split: sum.splits bool.splits
          intro: steps_log steps_trans [OF s1(1) steps_try_call]
            steps_trans [OF s2 steps_try_call] steps_trans [OF s2 steps_log])
  show "reports s s'"
    using assms u g unfolding outlet_3_emit_def Let_def
    by (auto split: sum.splits bool.splits
          intro: reports_log reports_trans [OF s1(2) reports_try_call]
            reports_trans [OF s1(2) reports_sdk_call(1)]
            reports_trans [OF reports_trans [OF s1(2) reports_sdk_call(2)] reports_try_call])
qed

lemma outlet_3_record_frame:
  assumes "outlet_3_record glam k trace task_name tags_list metadata body s = (r, s')"
  shows "steps s s'" and "reports s s'"
proof -
  let ?s1 = "\<lambda>am. try_call (Trace_update trace [(''output'', py_or am (JDict body))])
                 ''Error updating trace output'' s"
  from assms have "s' = s \<or> (\<exists>am us md m. outlet_3_emit k trace task_name tags_list
        (get_or body ''messages'' (JList [])) am us md (?s1 am) = (m, s'))"
    unfolding outlet_3_record_def Let_def
    by (auto split: sum.splits prod.splits if_splits)
  then consider "s' = s"
    | am us md m where "outlet_3_emit k trace task_name tags_list
        (get_or body ''messages'' (JList [])) am us md (?s1 am) = (m, s')"
    by blast
  then have "steps s s' \<and> reports s s'"
  proof cases
    case 1
    then show ?thesis
      by (simp add: steps_refl reports_refl)
  next
    case 2
    have "steps s (?s1 am)"
      by (rule steps_try_call) simp
    then have "steps s s'"
      using outlet_3_emit_frame(1) [OF 2] by (rule steps_trans)
    moreover have "reports s s'"
      using reports_try_call outlet_3_emit_frame(2) [OF 2] by (rule reports_trans)
    ultimately show ?thesis ..
  qed
  then show "steps s s'" and "reports s s'"
    by simp_all
qed

lemma outlet_3_try_frame:
  assumes "outlet_3_try glam body s = (r, s')"
  shows "steps s s'" and "reports s s'"
  using assms unfolding outlet_3_try_def Let_def
  by (auto simp: steps_refl steps_log reports_refl reports_log
        split: sum.splits option.splits if_splits dest: outlet_3_record_frame)

lemma reports_outlet_3_finally: "reports s (outlet_3_finally s)"
  by (auto simp: outlet_3_finally_def reports_def atoms split: sum.splits prod.splits if_splits list.splits)

subsection \<open>The parts of the inlet of \<open>pipelines-1.py\<close>\<close>

lemma map_of_dset: "map_of (dset d k v) k' = (if k' = k then Some v else map_of d k')"
  by (simp add: dset_def update_conv')

lemma has_key_dset: "has_key (dset d k v) k' = (k' = k \<or> has_key d k')"
  by (simp add: has_key_def map_of_dset)

lemma inlet_1_metadata_Inl:
  assumes "inlet_1_metadata body s = (Inl e, s1)"
  shows "s1 = s" and "e = AttributeError"
    and "attr_get (get_or body ''metadata'' (JDict [])) = Inl AttributeError"
  using assms unfolding inlet_1_metadata_def Let_def
  by (auto simp: attr_get_def split: sum.splits prod.splits if_splits json.splits)

lemma inlet_1_metadata_Inr:
  assumes "inlet_1_metadata body s = (Inr (chat_id, md, b1), s1)"
  shows "steps s s1" and "backend_log s1 = backend_log s" and "printed s1 = printed s"
    and "backend_script s1 = backend_script s"
    and "map_of md ''chat_id'' = Some chat_id"
    and "b1 = dset body ''metadata'' (JDict md)"
    and "chat_id \<noteq> JStr ''local''"
    and "\<exists>md0. attr_get (get_or body ''metadata'' (JDict [])) = Inr md0
               \<and> md = dset md0 ''chat_id'' chat_id"
  using assms unfolding inlet_1_metadata_def Let_def
  by (auto simp: steps_def uuid4_def map_of_dset split: sum.splits prod.splits if_splits)

lemma inlet_1_model_info_cases:
  assumes "inlet_1_model_info chat_id md b s = (r, s2)"
  shows "(\<exists>e. hkey chat_id = Inl e \<and> r = Inl e \<and> s2 = s)
       \<or> (\<exists>k rec. hkey chat_id = Inr k \<and> r = Inr k
             \<and> s2 = s\<lparr>model_names := AList.update k rec (model_names s)\<rparr>)"
proof (cases "hkey chat_id")
  case (Inl e)
  with assms have "r = Inl e" "s2 = s"
    by (auto simp: inlet_1_model_info_def)
  with Inl show ?thesis by simp
next
  case (Inr k)
  with assms have "r = Inr k"
    "\<exists>rec. s2 = s\<lparr>model_names := AList.update k rec (model_names s)\<rparr>"
    unfolding inlet_1_model_info_def Let_def
    by (auto split: option.splits json.splits)
  with Inr show ?thesis by simp
qed

lemma inlet_1_required_keys_cases:
  assumes "inlet_1_required_keys b s = (r, s3)"
  shows "(has_key b ''model'' \<and> has_key b ''messages'' \<and> r = Inr () \<and> s3 = s)
       \<or> ((\<not> has_key b ''model'' \<or> \<not> has_key b ''messages'')
           \<and> r = Inl (ValueError (filter (\<lambda>key. \<not> has_key b key) [''model'', ''messages'']))
           \<and> s3 = log ''Error: Missing keys in request body'' s)"
  using assms unfolding inlet_1_required_keys_def Let_def
  by (auto split: if_splits)









subsection \<open>The parts of the inlet of \<open>pipelines-3.py\<close>\<close>

lemma extract_metadata_present:
  "map_of body ''metadata'' = Some m \<Longrightarrow> extract_metadata body s = (m, s)"
  by (simp add: extract_metadata_def)














subsection \<open>What an inlet does to the two stores\<close>




lemma dset_dset: "dset (dset d k v) k w = dset d k w"
  by (simp add: dset_def)


subsection \<open>An outlet without a trace\<close>





subsection \<open>A request without a required key\<close>

text \<open>
  C4 (amended).  When the body lacks \<open>"model"\<close> or \<open>"messages"\<close>, the inlet of
  \<open>pipelines-1.py\<close> raises before any SDK call and leaves \<open>chat_traces\<close> as it is.
  When the metadata is a dictionary (or absent) and the conversation id is hashable, the
  error is the \<open>ValueError\<close> that names the missing keys; by then \<open>model_names\<close> has
  an entry for the conversation id, since the keys are checked after the model is stored.
\<close>

theorem inlet_1_missing_keys:
  assumes missing: "\<not> has_key body ''model'' \<or> \<not> has_key body ''messages''"
    and run: "inlet_1 body user s = (r, s')"
  shows "(\<exists>e. r = Inl e) \<and> backend_log s' = backend_log s \<and> chat_traces s' = chat_traces s
       \<and> (\<forall>chat_id md b1 s1 k.
             inlet_1_metadata body s = (Inr (chat_id, md, b1), s1) \<and> hkey chat_id = Inr k
             \<longrightarrow> r = Inl (ValueError (filter (\<lambda>key. \<not> has_key body key) [''model'', ''messages'']))
                 \<and> map_of (model_names s') k \<noteq> None)"
proof (cases "inlet_1_metadata body s")
  case (Pair r1 s1)
  show ?thesis
  proof (cases r1)
    case (Inl e)
    with Pair run have "r = Inl e" "s' = s1"
      by (auto simp: inlet_1_def)
    moreover have "s1 = s"
      using inlet_1_metadata_Inl(1) [OF Pair [unfolded Inl]] .
    ultimately show ?thesis
      using Pair Inl by simp
  next
    case (Inr t)
    obtain chat_id md b1 where t: "t = (chat_id, md, b1)"
      by (cases t)
    note m = Pair [unfolded Inr t]
    note f = inlet_1_metadata_Inr [OF m]
    have keys: "has_key b1 ''model'' = has_key body ''model''"
      "has_key b1 ''messages'' = has_key body ''messages''"
      "filter (\<lambda>key. \<not> has_key b1 key) [''model'', ''messages'']
        = filter (\<lambda>key. \<not> has_key body key) [''model'', ''messages'']"
      using f(6) by (simp_all add: has_key_dset)
    obtain r2 s2 where mi: "inlet_1_model_info chat_id md b1 s1 = (r2, s2)"
      by (cases "inlet_1_model_info chat_id md b1 s1")
    from inlet_1_model_info_cases [OF mi] show ?thesis
    proof (elim disjE exE conjE)
      fix e
      assume "hkey chat_id = Inl e" "r2 = Inl e" "s2 = s1"
      with m mi run f show ?thesis
        by (auto simp: inlet_1_def steps_def)
    next
      fix k rec
      assume k: "hkey chat_id = Inr k" "r2 = Inr k"
        "s2 = s1\<lparr>model_names := AList.update k rec (model_names s1)\<rparr>"
      obtain r3 s3 where rk: "inlet_1_required_keys b1 s2 = (r3, s3)"
        by (cases "inlet_1_required_keys b1 s2")
      from inlet_1_required_keys_cases [OF rk] missing keys
      have r3: "r3 = Inl (ValueError (filter (\<lambda>key. \<not> has_key body key) [''model'', ''messages'']))"
        and s3: "s3 = log ''Error: Missing keys in request body'' s2"
        by auto
      from run m mi rk k r3
      have "r = Inl (ValueError (filter (\<lambda>key. \<not> has_key body key) [''model'', ''messages'']))"
        "s' = s3"
        by (auto simp: inlet_1_def)
      with s3 k f m show ?thesis
        by (auto simp: log_def print_def steps_def update_conv')
    qed
  qed
qed

theorem inlet_1_missing_keys_witness:
  "\<not> has_key [(''model'', JStr ''gpt-4'')] ''messages''
   \<and> fst (inlet_1 [(''model'', JStr ''gpt-4'')] None example_state) = Inl (ValueError [''messages''])
   \<and> backend_log (snd (inlet_1 [(''model'', JStr ''gpt-4'')] None example_state)) = []
   \<and> chat_traces (snd (inlet_1 [(''model'', JStr ''gpt-4'')] None example_state)) = []"
proof -
  let ?b = "[(''model'', JStr ''gpt-4'')]"
  let ?w = "inlet_1 ?b None example_state"
  have h: "\<not> has_key ?b ''model'' \<or> \<not> has_key ?b ''messages''"
    by (simp add: has_key_def)
  have w: "inlet_1 ?b None example_state = (fst ?w, snd ?w)"
    by simp
  have "fst (inlet_1_metadata ?b example_state)
           = Inr (JStr ''uuid-0'', [(''chat_id'', JStr ''uuid-0'')],
                  [(''model'', JStr ''gpt-4''), (''metadata'', JDict [(''chat_id'', JStr ''uuid-0'')])])"
    by code_simp
  then obtain s1 where m: "inlet_1_metadata ?b example_state
           = (Inr (JStr ''uuid-0'', [(''chat_id'', JStr ''uuid-0'')],
                   [(''model'', JStr ''gpt-4''), (''metadata'', JDict [(''chat_id'', JStr ''uuid-0'')])]),
              s1)"
    by (cases "inlet_1_metadata ?b example_state") simp
  have k: "hkey (JStr ''uuid-0'') = Inr (JStr ''uuid-0'')"
    by (simp add: hkey_def)
  have f: "filter (\<lambda>key. \<not> has_key ?b key) [''model'', ''messages''] = [''messages'']"
    by (simp add: has_key_def)
  from inlet_1_missing_keys [OF h w] m k f
  have "fst ?w = Inl (ValueError [''messages''])" "backend_log (snd ?w) = backend_log example_state"
    "chat_traces (snd ?w) = chat_traces example_state"
    by auto
  then show ?thesis
    by (simp add: has_key_def example_state_def)
qed

text \<open>The model registry is not left unmodified.\<close>

theorem inlet_1_missing_keys_counterexample:
  "\<not> has_key [(''model'', JStr ''gpt-4'')] ''messages''
   \<and> model_names example_state = []
   \<and> model_names (snd (inlet_1 [(''model'', JStr ''gpt-4'')] None example_state))
       = [(JStr ''uuid-0'', [(''id'', JStr ''gpt-4'')])]"
  by code_simp

subsection \<open>The conversation id of the metadata\<close>




subsection \<open>The usage of the last assistant message\<close>

text \<open>What the usage block reports is never partial: nothing, or both counts with the unit.\<close>

lemma extract_usage_complete:
  "extract_usage obj = JNone
   \<or> (\<exists>i out. extract_usage obj = JDict [(''input'', i), (''output'', out), (''unit'', JStr ''TOKENS'')]
         \<and> i \<noteq> JNone \<and> out \<noteq> JNone)"
  by (auto simp: extract_usage_def Let_def split: json.splits)

text \<open>
  C6.  A count of zero under the first naming convention does not resolve: \<open>0 or None\<close>
  is \<open>None\<close>, so usage with \<open>prompt_eval_count = 0\<close> and \<open>eval_count = 3\<close> is not
  reported, while the same counts under the second convention are.
\<close>

theorem extract_usage_zero_count:
  "extract_usage [(''role'', JStr ''assistant''),
                  (''usage'', JDict [(''prompt_eval_count'', JInt 0), (''eval_count'', JInt 3)])]
     = JNone
   \<and> extract_usage [(''role'', JStr ''assistant''),
                    (''usage'', JDict [(''prompt_tokens'', JInt 0), (''completion_tokens'', JInt 3)])]
     = JDict [(''input'', JInt 0), (''output'', JInt 3), (''unit'', JStr ''TOKENS'')]"
  by (simp add: extract_usage_def get_or_def get_def py_or_def)

subsection \<open>The flush of the outlet\<close>

text \<open>
  C7 (amended).  In \<open>pipelines-3.py\<close>, when a client is set, every call of the outlet
  returns the body and ends with exactly one flush, whatever happened before; when the
  flush fails, a line is printed and nothing is raised.
\<close>

theorem outlet_3_flushes:
  assumes "langfuse s" and "outlet_3 glam body user s = (r, s')"
  shows "(\<exists>b. r = Inr b)
       \<and> (\<exists>mid ok. backend_log s' = backend_log s @ mid @ [(Flush, ok)]
                    \<and> Flush \<notin> fst ` set mid
                    \<and> (\<not> ok \<longrightarrow> (\<exists>p. printed s' = p @ [''[ERROR] Failed to flush Langfuse''])))"
proof -
  obtain r1 s1 where tr: "outlet_3_try glam body s = (r1, s1)"
    by (cases "outlet_3_try glam body s")
  let ?s2 = "case r1 of Inl e \<Rightarrow> log ''Error in outlet'' s1 | Inr b \<Rightarrow> s1"
  have "steps s ?s2"
    using outlet_3_try_frame(1) [OF tr]
    by (auto split: sum.splits intro: steps_trans steps_log)
  then have st: "langfuse ?s2" "\<exists>mid. backend_log ?s2 = backend_log s @ mid \<and> Flush \<notin> fst ` set mid"
    using assms(1) steps_log_only [of s ?s2] by (auto simp: steps_def)
  have s': "s' = outlet_3_finally ?s2" and r: "\<exists>b. r = Inr b"
    using assms(2) tr by (auto simp: outlet_3_def split: sum.splits)
  from st s' have "\<exists>mid ok. backend_log s' = backend_log s @ mid @ [(Flush, ok)]
                    \<and> Flush \<notin> fst ` set mid
                    \<and> (\<not> ok \<longrightarrow> (\<exists>p. printed s' = p @ [''[ERROR] Failed to flush Langfuse'']))"
    by (auto simp: outlet_3_finally_def sdk_call_def print_def Let_def split: list.splits)
  with r show ?thesis by simp
qed

theorem outlet_3_flushes_witness:
  "langfuse (snd (inlet_3 example_request None
                   (example_state\<lparr>backend_script := [True, True, False, False, False]\<rparr>)))
   \<and> (\<exists>mid ok.
         backend_log (snd (outlet_3 example_last_message example_response None
            (snd (inlet_3 example_request None
                   (example_state\<lparr>backend_script := [True, True, False, False, False]\<rparr>)))))
         = backend_log (snd (inlet_3 example_request None
                   (example_state\<lparr>backend_script := [True, True, False, False, False]\<rparr>)))
           @ mid @ [(Flush, ok)]
         \<and> Flush \<notin> fst ` set mid)"
proof -
  let ?s = "snd (inlet_3 example_request None
                  (example_state\<lparr>backend_script := [True, True, False, False, False]\<rparr>))"
  let ?w = "outlet_3 example_last_message example_response None ?s"
  have l: "langfuse ?s"
    by code_simp
  have w: "outlet_3 example_last_message example_response None ?s = (fst ?w, snd ?w)"
    by simp
  from outlet_3_flushes [OF l w] l show ?thesis
    by blast
qed

theorem outlet_1_no_flush_counterexample:
  "\<not> (\<exists>ok. (Flush, ok) \<in> set (backend_log (snd
        (outlet_1 example_last_message example_response None
           (snd (inlet_1 example_request None example_state))))))"
  by code_simp

subsection \<open>The outlet never raises\<close>

lemma sync_metadata_keys: "map fst (sync_metadata body md) = map fst body"
  by (auto simp: sync_metadata_def dset_def has_key_def update_keys map_of_eq_None_iff)

lemma sync_metadata_other:
  "key \<noteq> ''metadata'' \<Longrightarrow> map_of (sync_metadata body md) key = map_of body key"
  by (simp add: sync_metadata_def dset_def update_conv')

lemma outlet_3_record_body:
  assumes "outlet_3_record glam k trace task_name tags_list metadata body s = (Inr b, s1)"
  shows "\<exists>md. b = sync_metadata body md"
  using assms unfolding outlet_3_record_def Let_def
  by (auto split: sum.splits prod.splits if_splits)

lemma outlet_3_try_body:
  assumes "outlet_3_try glam body s = (Inr b, s1)"
  shows "b = body \<or> (\<exists>md. b = sync_metadata body md)"
  using assms unfolding outlet_3_try_def Let_def
  by (auto split: sum.splits option.splits if_splits dest: outlet_3_record_body)


lemma outlet_3_finally_printed: "\<exists>p. printed (outlet_3_finally t) = printed t @ p"
  using reports_outlet_3_finally [of t] by (auto simp: reports_def)

text \<open>
  C8 (amended).  In \<open>pipelines-3.py\<close> the outlet returns the body for every body and
  every state: the same keys in the same order, and the same values except under
  \<open>"metadata"\<close>.  It never raises.  With the debug valve set, at least one line is
  printed for every SDK call that failed, and \<open>Error in outlet\<close> is printed when the
  body of the outer \<open>try\<close> statement raised.
\<close>

theorem outlet_3_never_raises:
  assumes "outlet_3 glam body user s = (r, s')"
  shows "(\<exists>b. r = Inr b \<and> map fst b = map fst body
              \<and> (\<forall>key. key \<noteq> ''metadata'' \<longrightarrow> map_of b key = map_of body key))
       \<and> (\<exists>new p. backend_log s' = backend_log s @ new \<and> printed s' = printed s @ p
              \<and> (debug (valves s) \<longrightarrow> length (filter (\<lambda>c. \<not> snd c) new) \<le> length p))
       \<and> (\<forall>e s1. outlet_3_try glam body s = (Inl e, s1) \<and> debug (valves s)
              \<longrightarrow> ''Error in outlet'' \<in> set (printed s'))"
proof -
  obtain r1 s1 where tr: "outlet_3_try glam body s = (r1, s1)"
    by (cases "outlet_3_try glam body s")
  let ?s2 = "case r1 of Inl e \<Rightarrow> log ''Error in outlet'' s1 | Inr b \<Rightarrow> s1"
  have s': "s' = outlet_3_finally ?s2"
    and r: "r = (case r1 of Inl e \<Rightarrow> Inr body | Inr b \<Rightarrow> Inr b)"
    using assms tr by (auto simp: outlet_3_def split: sum.splits)
  have body: "\<exists>b. r = Inr b \<and> map fst b = map fst body
              \<and> (\<forall>key. key \<noteq> ''metadata'' \<longrightarrow> map_of b key = map_of body key)"
  proof (cases r1)
    case (Inl e)
    with r show ?thesis by simp
  next
    case (Inr b)
    with tr outlet_3_try_body [of glam body s b s1]
    have "b = body \<or> (\<exists>md. b = sync_metadata body md)" by simp
    with r Inr show ?thesis
      by (auto simp: sync_metadata_keys sync_metadata_other)
  qed
  have "reports s ?s2"
  proof (cases r1)
    case (Inl e)
    then show ?thesis
      using reports_trans [OF outlet_3_try_frame(2) [OF tr] reports_log] by simp
  next
    case (Inr b)
    then show ?thesis using outlet_3_try_frame(2) [OF tr] by simp
  qed
  then have "reports s s'"
    unfolding s' by (rule reports_trans [OF _ reports_outlet_3_finally])
  then have rep: "\<exists>new p. backend_log s' = backend_log s @ new \<and> printed s' = printed s @ p
              \<and> (debug (valves s) \<longrightarrow> length (filter (\<lambda>c. \<not> snd c) new) \<le> length p)"
    by (simp add: reports_def)
  have v: "valves s1 = valves s"
    using outlet_3_try_frame(1) [OF tr] by (simp add: steps_def)
  have err: "\<forall>e s1. outlet_3_try glam body s = (Inl e, s1) \<and> debug (valves s)
              \<longrightarrow> ''Error in outlet'' \<in> set (printed s')"
  proof (intro allI impI)
    fix e t
    assume a: "outlet_3_try glam body s = (Inl e, t) \<and> debug (valves s)"
    with tr have r1: "r1 = Inl e" and t: "t = s1" by simp_all
    from a v have "printed (log ''Error in outlet'' s1) = printed s1 @ [''Error in outlet'']"
      by (simp add: log_def print_def)
    moreover obtain p where "printed s' = printed (log ''Error in outlet'' s1) @ p"
      using outlet_3_finally_printed [of "log ''Error in outlet'' s1"] s' r1 by auto
    ultimately show "''Error in outlet'' \<in> set (printed s')" by simp
  qed
  from body rep err show ?thesis by blast
qed

theorem outlet_3_never_raises_witness:
  "(\<exists>b. fst (outlet_3 example_last_message example_response None
               (snd (inlet_3 example_request None
                      (example_state\<lparr>backend_script := [True, True, False, False, False]\<rparr>))))
          = Inr b \<and> map fst b = map fst example_response)
   \<and> fst (outlet_3 example_last_message [(''chat_id'', JStr ''c1''), (''metadata'', JInt 1)] None
              example_state)
       = Inr [(''chat_id'', JStr ''c1''), (''metadata'', JInt 1)]
   \<and> ''Error in outlet'' \<in> set (printed (snd
         (outlet_3 example_last_message [(''chat_id'', JStr ''c1''), (''metadata'', JInt 1)] None
            example_state)))"
proof -
  let ?s = "snd (inlet_3 example_request None
                  (example_state\<lparr>backend_script := [True, True, False, False, False]\<rparr>))"
  let ?w = "outlet_3 example_last_message example_response None ?s"
  let ?b = "[(''chat_id'', JStr ''c1''), (''metadata'', JInt 1)]"
  let ?v = "outlet_3 example_last_message ?b None example_state"
  have w: "outlet_3 example_last_message example_response None ?s = (fst ?w, snd ?w)"
    and v: "outlet_3 example_last_message ?b None example_state = (fst ?v, snd ?v)"
    by simp_all
  have t: "outlet_3_try example_last_message ?b example_state = (Inl AttributeError, example_state)"
    by (simp add: outlet_3_try_def outlet_3_chat_id_def get_nested_def get_def get_or_def
          attr_get_def)
  have d: "debug (valves example_state)"
    by (simp add: example_state_def)
  have r: "fst ?v = Inr ?b"
    by (simp add: outlet_3_def t)
  from outlet_3_never_raises [OF w] have "\<exists>b. fst ?w = Inr b \<and> map fst b = map fst example_response"
    by blast
  moreover from outlet_3_never_raises [OF v] t d
  have "''Error in outlet'' \<in> set (printed (snd ?v))"
    by blast
  ultimately show ?thesis using r by simp
qed

theorem outlet_1_raises_counterexample:
  "fst (outlet_1 example_last_message example_response None
         (snd (inlet_1 example_request None
                (example_state\<lparr>backend_script := [True, True, False]\<rparr>))))
   = Inl BackendError"
  by code_simp

subsection \<open>The last assistant message\<close>

lemma first_assistant_skip:
  assumes "\<forall>m\<in>set pre. \<exists>d. m = JDict d \<and> has_key d ''role''
             \<and> map_of d ''role'' \<noteq> Some (JStr ''assistant'')"
  shows "first_assistant (pre @ rest) = first_assistant rest"
  using assms
  by (induction pre) (auto simp: subscript_def has_key_def split: option.splits)

lemma first_assistant_none:
  assumes "\<forall>m\<in>set ms. \<exists>d. m = JDict d \<and> has_key d ''role''
             \<and> map_of d ''role'' \<noteq> Some (JStr ''assistant'')"
  shows "first_assistant ms = Inr []"
  using first_assistant_skip [OF assms, of "[]"] by simp

text \<open>
  C9.  On a list of messages that are dictionaries with a \<open>role\<close> key,
  \<open>get_last_assistant_message_obj\<close> returns the message at the greatest position whose
  role is \<open>"assistant"\<close>, returns the empty dictionary when no message has that role,
  and never raises.
\<close>

theorem get_last_assistant_message_obj_last:
  assumes roles: "\<forall>m\<in>set messages. \<exists>d. m = JDict d \<and> has_key d ''role''"
  shows "(\<forall>i d. i < length messages \<and> messages ! i = JDict d
            \<and> map_of d ''role'' = Some (JStr ''assistant'')
            \<and> (\<forall>j. i < j \<and> j < length messages
                   \<longrightarrow> subscript (messages ! j) ''role'' \<noteq> Inr (JStr ''assistant''))
            \<longrightarrow> get_last_assistant_message_obj (JList messages) = Inr d)
       \<and> ((\<forall>m\<in>set messages. subscript m ''role'' \<noteq> Inr (JStr ''assistant''))
            \<longrightarrow> get_last_assistant_message_obj (JList messages) = Inr [])
       \<and> (\<exists>d. get_last_assistant_message_obj (JList messages) = Inr d)"
proof (intro conjI allI impI)
  fix i d
  assume h: "i < length messages \<and> messages ! i = JDict d
            \<and> map_of d ''role'' = Some (JStr ''assistant'')
            \<and> (\<forall>j. i < j \<and> j < length messages
                   \<longrightarrow> subscript (messages ! j) ''role'' \<noteq> Inr (JStr ''assistant''))"
  then have split: "messages = take i messages @ JDict d # drop (Suc i) messages"
    by (metis id_take_nth_drop)
  have later: "\<forall>m\<in>set (rev (drop (Suc i) messages)).
      \<exists>d. m = JDict d \<and> has_key d ''role'' \<and> map_of d ''role'' \<noteq> Some (JStr ''assistant'')"
  proof
    fix m assume "m \<in> set (rev (drop (Suc i) messages))"
    then have "m \<in> set (drop (Suc i) messages)" by simp
    then obtain n where n: "n < length (drop (Suc i) messages)" "m = drop (Suc i) messages ! n"
      by (metis in_set_conv_nth)
    then have m: "m = messages ! (Suc i + n)" and lt: "Suc i + n < length messages" by auto
    from lt have "m \<in> set messages" using m by simp
    with roles obtain d' where d': "m = JDict d'" "has_key d' ''role''" by blast
    from h m lt have "subscript m ''role'' \<noteq> Inr (JStr ''assistant'')" by simp
    with d' show "\<exists>d. m = JDict d \<and> has_key d ''role''
                    \<and> map_of d ''role'' \<noteq> Some (JStr ''assistant'')"
      by (auto simp: subscript_def has_key_def split: option.splits)
  qed
  have "rev messages = rev (drop (Suc i) messages) @ (JDict d # rev (take i messages))"
    by (subst split) simp
  then have "first_assistant (rev messages) = first_assistant (JDict d # rev (take i messages))"
    using first_assistant_skip [OF later] by simp
  with h show "get_last_assistant_message_obj (JList messages) = Inr d"
    by (simp add: get_last_assistant_message_obj_def reversed_def subscript_def)
next
  assume none: "\<forall>m\<in>set messages. subscript m ''role'' \<noteq> Inr (JStr ''assistant'')"
  have "\<forall>m\<in>set (rev messages).
      \<exists>d. m = JDict d \<and> has_key d ''role'' \<and> map_of d ''role'' \<noteq> Some (JStr ''assistant'')"
    using roles none by (fastforce simp: subscript_def has_key_def split: option.splits)
  then show "get_last_assistant_message_obj (JList messages) = Inr []"
    by (simp add: get_last_assistant_message_obj_def reversed_def first_assistant_none)
next
  have "\<forall>m\<in>set ms. \<exists>d. m = JDict d \<and> has_key d ''role'' \<Longrightarrow> \<exists>d. first_assistant ms = Inr d"
    for ms
    by (induction ms) (auto simp: subscript_def has_key_def split: option.splits)
  with roles show "\<exists>d. get_last_assistant_message_obj (JList messages) = Inr d"
    by (simp add: get_last_assistant_message_obj_def reversed_def)
qed

theorem get_last_assistant_message_obj_last_witness:
  "get_last_assistant_message_obj
     (JList [JDict [(''role'', JStr ''assistant''), (''content'', JStr ''a'')],
             JDict [(''role'', JStr ''assistant''), (''content'', JStr ''b'')],
             JDict [(''role'', JStr ''user''), (''content'', JStr ''c'')]])
   = Inr [(''role'', JStr ''assistant''), (''content'', JStr ''b'')]
   \<and> get_last_assistant_message_obj (JList [JDict [(''role'', JStr ''user'')]]) = Inr []"
proof -
  let ?ms = "[JDict [(''role'', JStr ''assistant''), (''content'', JStr ''a'')],
             JDict [(''role'', JStr ''assistant''), (''content'', JStr ''b'')],
             JDict [(''role'', JStr ''user''), (''content'', JStr ''c'')]]"
  have r1: "\<forall>m\<in>set ?ms. \<exists>d. m = JDict d \<and> has_key d ''role''"
    by (simp add: has_key_def)
  have r2: "\<forall>m\<in>set [JDict [(''role'', JStr ''user'')]]. \<exists>d. m = JDict d \<and> has_key d ''role''"
    by (simp add: has_key_def)
  have later: "\<forall>j. (1::nat) < j \<and> j < length ?ms
                   \<longrightarrow> subscript (?ms ! j) ''role'' \<noteq> Inr (JStr ''assistant'')"
  proof (intro allI impI)
    fix j :: nat assume "1 < j \<and> j < length ?ms"
    then have "j = 2" by simp
    then show "subscript (?ms ! j) ''role'' \<noteq> Inr (JStr ''assistant'')"
      by (simp add: subscript_def)
  qed
  have a: "get_last_assistant_message_obj (JList ?ms)
             = Inr [(''role'', JStr ''assistant''), (''content'', JStr ''b'')]"
    using get_last_assistant_message_obj_last [OF r1, THEN conjunct1, rule_format,
        of 1 "[(''role'', JStr ''assistant''), (''content'', JStr ''b'')]"] later
    by simp
  have b: "get_last_assistant_message_obj (JList [JDict [(''role'', JStr ''user'')]]) = Inr []"
    using get_last_assistant_message_obj_last [OF r2, THEN conjunct2, THEN conjunct1]
    by (simp add: subscript_def)
  from a b show ?thesis by simp
qed

end
